theory Spec2Isabelle
  imports Complex_Main "HOL-Library.Monad_Syntax"
begin

unbundle bit_operations_syntax

section \<open>The forward kernel \<open>mutual_information_kernel\<close>\<close>

text \<open>
  The kernel of \<open>mutual_information_cuda_kernel.cu\<close> is embedded as it is written.
  The C++ \<open>int\<close> values are modelled as mathematical integers (signed overflow is
  undefined behaviour in C++, and \<open>packed_accessor32\<close> bounds every size by the
  32-bit range); \<open>/\<close> and \<open>%\<close> truncate towards zero as in C++; the cast
  \<open>static_cast<unsigned int>\<close> is reduction modulo \<open>2 ^ 32\<close>. The floating-point
  type \<open>scalar_t\<close> is modelled by the reals, with a separate value for \<open>-infinity\<close>.
  The template parameters \<open>BLOCK_S_SIZE\<close> and \<open>BLOCK_T_SIZE\<close> are arguments.
\<close>

definition c_div :: "int \<Rightarrow> int \<Rightarrow> int" where
  "c_div a b = sgn a * sgn b * (\<bar>a\<bar> div \<bar>b\<bar>)"

definition c_mod :: "int \<Rightarrow> int \<Rightarrow> int" where
  "c_mod a b = a - b * c_div a b"

definition to_unsigned :: "int \<Rightarrow> int" where
  "to_unsigned x = x mod 2 ^ 32"

definition num_s_blocks :: "int \<Rightarrow> int \<Rightarrow> int" where
  "num_s_blocks BLOCK_S_SIZE S = c_div (S + BLOCK_S_SIZE - 1) BLOCK_S_SIZE"


definition num_blocks_this_iter :: "int \<Rightarrow> int \<Rightarrow> int \<Rightarrow> int" where
  "num_blocks_this_iter BLOCK_S_SIZE S iter = min (iter + 1) (num_s_blocks BLOCK_S_SIZE S)"

text \<open>
  A loop \<open>for (int i = start; i < limit; i += stride)\<close>: the values \<open>i\<close> takes.
  The strides of the kernel are \<open>gridDim.x\<close> and \<open>block_dimx\<close>, unsigned and at
  least 1 in every launch; with a stride of 0 the loop is not entered here.
\<close>

function strided_loop :: "int \<Rightarrow> int \<Rightarrow> nat \<Rightarrow> int list" where
  "strided_loop i limit stride =
     (if i < limit \<and> 0 < stride then i # strided_loop (i + int stride) limit stride else [])"
  by pat_completeness auto
termination
  by (relation "measure (\<lambda>(i, limit, stride). nat (limit - i))") auto

declare strided_loop.simps [simp del]

text \<open>
  The rows of \<open>boundary\<close> are \<open>(s_begin, t_begin, s_end, t_end)\<close>; the empty list is
  the accessor with \<open>boundary.size(0) == 0\<close>.
\<close>

type_synonym boundary = "(int \<times> int \<times> int \<times> int) list"

text \<open>The per-iteration variables of the loop over \<open>batch_block_iter\<close>, up to the \<open>continue\<close>.\<close>

record tile =
  tile_b :: int
  tile_block :: int
  s_block_begin :: int
  t_block_begin :: int
  is_origin_block :: bool
  s_end :: int
  t_end :: int
  block_S :: int
  block_T :: int

definition tile_setup ::
  "int \<Rightarrow> int \<Rightarrow> int \<Rightarrow> int \<Rightarrow> int \<Rightarrow> boundary \<Rightarrow> int \<Rightarrow> int \<Rightarrow> tile" where
  "tile_setup BLOCK_S_SIZE BLOCK_T_SIZE B S T bnd iter batch_block_iter =
     (let b = c_mod batch_block_iter B;
          block = c_div batch_block_iter B;
          sbb = block * BLOCK_S_SIZE;
          tbb = (iter - block) * BLOCK_T_SIZE;
          origin = (sbb * tbb = 0)
      in case (if bnd = [] then (sbb, tbb, S, T)
               else (case bnd ! nat b of
                       (s_begin, t_begin, se, te) \<Rightarrow> (sbb + s_begin, tbb + t_begin, se, te)))
         of (sbb', tbb', se, te) \<Rightarrow>
           \<lparr> tile_b = b, tile_block = block, s_block_begin = sbb', t_block_begin = tbb',
             is_origin_block = origin, s_end = se, t_end = te,
             block_S = min BLOCK_T_SIZE (se - sbb'),
             block_T = min BLOCK_S_SIZE (te - tbb') \<rparr>)"

text \<open>The test \<open>if (block_S <= 0 || block_T <= 0) continue;\<close>: a tile that passes it does work.\<close>

definition does_work :: "tile \<Rightarrow> bool" where
  "does_work ti = (\<not> (block_S ti \<le> 0 \<or> block_T ti \<le> 0))"

text \<open>
  The load of \<open>px_buf\<close> and \<open>py_buf\<close>: the cell \<open>(s, t)\<close> and the value that the loop
  index \<open>i\<close> stores there. The source starts the loop at \<open>threadDim.x\<close>, which is read
  as the index of the thread.
\<close>

definition buf_value ::
  "int \<Rightarrow> (int \<Rightarrow> int \<Rightarrow> int \<Rightarrow> real) \<Rightarrow> tile \<Rightarrow> int \<Rightarrow> (int \<times> int) \<times> real" where
  "buf_value BLOCK_T_SIZE px ti i =
     (let t = c_mod i BLOCK_T_SIZE; s = c_div i BLOCK_T_SIZE
      in ((s, t),
          if s < block_S ti \<and> t < block_T ti
          then exp (px (tile_b ti) (s + s_block_begin ti) (t + t_block_begin ti))
          else 0))"

datatype pval = NegInfinity | Fin real

text \<open>
  The load of the first row and column of \<open>p_buf\<close> by the thread \<open>threadIdx.x\<close>: the
  cell of \<open>p_buf\<close> it writes, if any, and the value. The source reads \<open>p\<close> with the two
  indices \<open>[s + s_block_begin][s + t_block_begin]\<close>, kept here as written; the value of
  the origin block is the conditional expression \<open>is_origin_block && i == 1 ? 1.0\<close> with
  \<open>-infinity\<close> as its other branch.
\<close>

definition load_p_buf ::
  "int \<Rightarrow> int \<Rightarrow> (int \<Rightarrow> int \<Rightarrow> pval) \<Rightarrow> tile \<Rightarrow> int \<Rightarrow> ((int \<times> int) \<times> pval) option" where
  "load_p_buf BLOCK_S_SIZE BLOCK_T_SIZE p ti threadIdx_x =
     (if threadIdx_x < 64 then
        (if threadIdx_x \<le> BLOCK_S_SIZE then
           (let s = threadIdx_x - 1; t = - 1
            in if to_unsigned (s + s_block_begin ti) < to_unsigned (block_S ti) \<and>
                  to_unsigned (t + t_block_begin ti) < to_unsigned (block_T ti)
               then Some ((threadIdx_x, 0), p (s + s_block_begin ti) (s + t_block_begin ti))
               else Some ((threadIdx_x, 0), NegInfinity))
         else None)
      else
        (if threadIdx_x - 64 \<le> BLOCK_T_SIZE then
           (let i = threadIdx_x - 64; t = i - 1; s = - 1
            in if to_unsigned (s + s_block_begin ti) < to_unsigned (block_S ti) \<and>
                  to_unsigned (t + t_block_begin ti) < to_unsigned (block_T ti)
               then Some ((0, i), p (s + s_block_begin ti) (s + t_block_begin ti))
               else Some ((0, i), if is_origin_block ti \<and> i = 1 then Fin 1 else NegInfinity))
         else None))"

text \<open>
  The shared buffers after one tile, as the writes of the \<open>block_dimx = BLOCK_T_SIZE * 4\<close>
  threads of the block in the order of their indices.
\<close>

record tile_work =
  px_buf :: "((int \<times> int) \<times> real) list"
  py_buf :: "((int \<times> int) \<times> real) list"
  p_buf :: "((int \<times> int) \<times> pval) list"

definition block_dimx :: "int \<Rightarrow> nat" where
  "block_dimx BLOCK_T_SIZE = nat (BLOCK_T_SIZE * 4)"

definition thread_ids :: "int \<Rightarrow> int list" where
  "thread_ids BLOCK_T_SIZE = map int [0..<block_dimx BLOCK_T_SIZE]"

definition process_tile ::
  "int \<Rightarrow> int \<Rightarrow> (int \<Rightarrow> int \<Rightarrow> int \<Rightarrow> real) \<Rightarrow> (int \<Rightarrow> int \<Rightarrow> int \<Rightarrow> real) \<Rightarrow>
   (int \<Rightarrow> int \<Rightarrow> pval) \<Rightarrow> tile \<Rightarrow> tile_work option" where
  "process_tile BLOCK_S_SIZE BLOCK_T_SIZE px py p ti =
     (if block_S ti \<le> 0 \<or> block_T ti \<le> 0 then None
      else Some
        \<lparr> px_buf = concat (map (\<lambda>tid. map (buf_value BLOCK_T_SIZE px ti)
                      (strided_loop tid (BLOCK_S_SIZE * BLOCK_T_SIZE) (block_dimx BLOCK_T_SIZE)))
                    (thread_ids BLOCK_T_SIZE)),
          py_buf = concat (map (\<lambda>tid. map (buf_value BLOCK_T_SIZE py ti)
                      (strided_loop tid (BLOCK_S_SIZE * BLOCK_T_SIZE) (block_dimx BLOCK_T_SIZE)))
                    (thread_ids BLOCK_T_SIZE)),
          p_buf = List.map_filter (load_p_buf BLOCK_S_SIZE BLOCK_T_SIZE p ti)
                    (thread_ids BLOCK_T_SIZE) \<rparr>)"

text \<open>
  The kernel in the thread block \<open>blockIdx.x\<close> of a grid of \<open>gridDim.x\<close> blocks: for every
  \<open>batch_block_iter\<close> of its loop the tile and what the block did for it (\<open>None\<close> is the
  \<open>continue\<close>), and the contents of the output \<open>p\<close> when the kernel ends. The kernel of
  the source ends after the load of \<open>p_buf\<close>: no statement of it assigns to \<open>p\<close>.
  \<open>B\<close>, \<open>S\<close> and \<open>T\<close> are \<open>px.size(0)\<close>, \<open>px.size(1)\<close> and \<open>py.size(2)\<close>.
\<close>

record kernel_result =
  tiles_done :: "(tile \<times> tile_work option) list"
  p_out :: "int \<Rightarrow> int \<Rightarrow> pval"

definition mutual_information_kernel ::
  "int \<Rightarrow> int \<Rightarrow> nat \<Rightarrow> nat \<Rightarrow> (int \<Rightarrow> int \<Rightarrow> int \<Rightarrow> real) \<Rightarrow> (int \<Rightarrow> int \<Rightarrow> int \<Rightarrow> real) \<Rightarrow>
   (int \<Rightarrow> int \<Rightarrow> pval) \<Rightarrow> int \<Rightarrow> int \<Rightarrow> int \<Rightarrow> boundary \<Rightarrow> int \<Rightarrow> kernel_result" where
  "mutual_information_kernel BLOCK_S_SIZE BLOCK_T_SIZE gridDim_x blockIdx_x px py p B S T bnd iter =
     \<lparr> tiles_done =
         map (\<lambda>batch_block_iter.
                (let ti = tile_setup BLOCK_S_SIZE BLOCK_T_SIZE B S T bnd iter batch_block_iter
                 in (ti, process_tile BLOCK_S_SIZE BLOCK_T_SIZE px py p ti)))
             (strided_loop (int blockIdx_x) (B * num_blocks_this_iter BLOCK_S_SIZE S iter) gridDim_x),
       p_out = p \<rparr>"



section \<open>The host entry points\<close>

text \<open>
  A tensor as the entry points see it: its sizes and its device. The macro
  \<open>THREADS_PER_BLOCK\<close> is not defined in the file and is an argument. The values
  \<open>B\<close>, \<open>C\<close>, \<open>T\<close> and \<open>N\<close> are taken to be in the range of \<open>int\<close>. A \<open>TORCH_CHECK\<close>
  that fails ends the call with its message (\<open>Inl\<close>).
\<close>

datatype device = CPU | CUDA nat

record tensor =
  sizes :: "nat list"
  device :: device

definition tensor_dim :: "tensor \<Rightarrow> nat" where
  "tensor_dim t = length (sizes t)"

definition tensor_size :: "tensor \<Rightarrow> nat \<Rightarrow> int" where
  "tensor_size t i = int (sizes t ! i)"

definition is_cuda :: "device \<Rightarrow> bool" where
  "is_cuda d = (case d of CPU \<Rightarrow> False | CUDA _ \<Rightarrow> True)"

text \<open>The arguments of a kernel launch \<open><<<gridDim, THREADS_PER_BLOCK, bytes, stream>>>\<close>.\<close>

record launch =
  grid_dim_x :: int
  grid_dim_y :: int
  threads :: int
  shared_mem_numel :: int
  images_per_thread_block :: int


partial_function (option) images_loop_backward :: "int \<Rightarrow> int \<Rightarrow> int \<Rightarrow> int \<Rightarrow> int option" where
  "images_loop_backward THREADS_PER_BLOCK T N ipt =
     (if ipt * 2 * T \<le> THREADS_PER_BLOCK \<and> ipt * 2 * N \<le> THREADS_PER_BLOCK
      then images_loop_backward THREADS_PER_BLOCK T N (ipt * 2) else Some ipt)"

partial_function (option) grid_dim_y_loop :: "int \<Rightarrow> int \<Rightarrow> int option" where
  "grid_dim_y_loop C gdy = (if C * gdy < 128 then grid_dim_y_loop C (gdy * 2) else Some gdy)"

declare images_loop_backward.simps [code]
declare grid_dim_y_loop.simps [code]

subsection \<open>\<open>mutual_information_cuda\<close>\<close>



subsection \<open>\<open>mutual_information_backward_cuda\<close>\<close>

text \<open>
  \<open>params_grad\<close> is allocated by \<open>torch::zeros({grid_dim_y, C, N + 1})\<close>. The last
  statement of the backward kernel stores, in the block \<open>(c, blockIdx.y)\<close> and for every
  thread with \<open>threadIdx.x <= N\<close>, the value \<open>params_grad_buf[threadIdx.x - 1]\<close> in
  \<open>params_grad[blockIdx.y][c][threadIdx.x]\<close>. That value is the argument \<open>kern\<close> here; the
  grid has the blocks \<open>(c, blockIdx.y)\<close> of every cell and \<open>THREADS_PER_BLOCK\<close> threads.
  The result of the entry point keeps, next to what it returns, the contents of
  \<open>params_grad\<close> when the kernel has ended and the arguments of the launch.
\<close>

definition zeros3 :: "nat \<Rightarrow> nat \<Rightarrow> nat \<Rightarrow> real list list list" where
  "zeros3 a b c = replicate a (replicate b (replicate c 0))"

definition kernel_params_grad ::
  "(nat \<Rightarrow> nat \<Rightarrow> nat \<Rightarrow> real) \<Rightarrow> int \<Rightarrow> real list list list \<Rightarrow> real list list list" where
  "kernel_params_grad kern THREADS_PER_BLOCK params_grad =
     map (\<lambda>y. map (\<lambda>c. map (\<lambda>n. if int n < THREADS_PER_BLOCK then kern y c n
                                  else params_grad ! y ! c ! n)
                          [0..<length (params_grad ! y ! c)])
                   [0..<length (params_grad ! y)])
         [0..<length params_grad]"

text \<open>\<open>at::sum(params_grad, {0})\<close> on a tensor of sizes \<open>(_, C, N1)\<close>.\<close>

definition add_rows :: "real list list \<Rightarrow> real list list \<Rightarrow> real list list" where
  "add_rows x y = map2 (map2 (+)) x y"

definition at_sum_dim0 :: "nat \<Rightarrow> nat \<Rightarrow> real list list list \<Rightarrow> real list list" where
  "at_sum_dim0 C N1 t = foldr add_rows t (replicate C (replicate N1 0))"

text \<open>
  What is known of a tensor of two dimensions on return: only its sizes when it comes
  from \<open>torch::empty\<close>, its rows when it was computed.
\<close>

datatype matrix = Empty_Tensor "int list" | Values "real list list"

record backward_result =
  input_grad_sizes :: "int list"
  params_grad :: matrix
  kernel_params_grad_out :: "real list list list option"
  backward_launch :: "launch option"

definition mutual_information_backward_cuda ::
  "int \<Rightarrow> (nat \<Rightarrow> nat \<Rightarrow> nat \<Rightarrow> real) \<Rightarrow> tensor \<Rightarrow> tensor \<Rightarrow> tensor \<Rightarrow>
   (string + backward_result) option" where
  "mutual_information_backward_cuda THREADS_PER_BLOCK kern input params output_grad =
     (if tensor_dim input \<noteq> 3 then Some (Inl ''input must be 3-dimensional'')
      else if tensor_dim params \<noteq> 2 then Some (Inl ''params must be 2-dimensional.'')
      else if \<not> (tensor_size params 1 \<ge> 3 \<and>
                   (tensor_size params 1 - 1) AND (tensor_size params 1 - 2) = 0)
        then Some (Inl ''params.size(1) has invalid value, must be a power of 2 plus 1.'')
      else if tensor_size params 0 \<noteq> tensor_size input 1
        then Some (Inl ''params vs input channels mismatch'')
      else if \<not> (tensor_dim output_grad = 3 \<and>
                   tensor_size output_grad 0 = tensor_size input 0 \<and>
                   tensor_size output_grad 1 = tensor_size input 1 \<and>
                   tensor_size output_grad 2 = tensor_size input 2)
        then Some (Inl ''output_grad and input have mismatched dim.'')
      else if \<not> is_cuda (device input) then Some (Inl ''Input must be a CUDA tensor'')
      else if \<not> is_cuda (device output_grad)
        then Some (Inl ''output_grad must be a CUDA tensor'')
      else if \<not> is_cuda (device params) then Some (Inl ''Params must be a CUDA tensor'')
      else
        (let B = tensor_size input 0; C = tensor_size input 1; T = tensor_size input 2;
             N = tensor_size params 1 - 1
         in if \<not> N \<ge> 4 then Some (Inl ''This backward code requires N >= 4'')
            else if \<not> N \<le> 16
              then Some (Inl ''This backward code currently requires N <= 16'')
            else if \<not> (N AND (N - 1)) = 0 then Some (Inl ''N must be a power of 2'')
            else if C * B * T = 0
              then Some (Inr \<lparr> input_grad_sizes = [B, C, T],
                     params_grad = Empty_Tensor [C, N + 1],
                     kernel_params_grad_out = None, backward_launch = None \<rparr>)
            else do {
              ipt \<leftarrow> images_loop_backward THREADS_PER_BLOCK T N 1;
              gdy \<leftarrow> grid_dim_y_loop C 1;
              (let B_reduced = c_div (B + ipt - 1) ipt;
                   gdy' = (if gdy > B_reduced then B_reduced else gdy);
                   numel = 2 * N + 3
               in if \<not> (c_div THREADS_PER_BLOCK ipt \<ge> T \<or> ipt = 1)
                  then Some (Inl ''Code error'')
                  else if \<not> (c_div THREADS_PER_BLOCK ipt \<ge> N)
                  then Some (Inl ''Expected THREADS_PER_BLOCK / images_per_thread_block >= N to be true, but got false.'')
                  else
                    (let pg = zeros3 (nat gdy') (nat C) (nat (N + 1));
                         pg' = kernel_params_grad kern THREADS_PER_BLOCK pg
                     in Some (Inr \<lparr> input_grad_sizes = [B, C, T],
                              params_grad = Values (at_sum_dim0 (nat C) (nat (N + 1)) pg'),
                              kernel_params_grad_out = Some pg',
                              backward_launch = Some \<lparr> grid_dim_x = C, grid_dim_y = gdy',
                                threads = THREADS_PER_BLOCK, shared_mem_numel = numel,
                                images_per_thread_block = ipt \<rparr> \<rparr>)))
            }))"

section \<open>Arithmetic of the tiling\<close>

lemma c_div_nonneg: "0 \<le> a \<Longrightarrow> 0 < b \<Longrightarrow> c_div a b = a div b"
  by (cases "a = 0") (simp_all add: c_div_def)

lemma c_mod_nonneg: "0 \<le> a \<Longrightarrow> 0 < b \<Longrightarrow> c_mod a b = a mod b"
  by (simp add: c_mod_def c_div_nonneg minus_mult_div_eq_mod)

lemma less_div_iff_int:
  fixes k m d :: int
  assumes "0 < d"
  shows "k < m div d \<longleftrightarrow> (k + 1) * d \<le> m"
proof
  assume "k < m div d"
  then have "k + 1 \<le> m div d" by simp
  then have "(k + 1) * d \<le> (m div d) * d" using assms by (simp add: mult_right_mono)
  also have "\<dots> \<le> m"
  proof -
    have "m div d * d + m mod d = m" by simp
    moreover have "0 \<le> m mod d" using assms by simp
    ultimately show ?thesis by linarith
  qed
  finally show "(k + 1) * d \<le> m" .
next
  assume "(k + 1) * d \<le> m"
  then have "((k + 1) * d) div d \<le> m div d" using assms by (rule zdiv_mono1)
  then show "k < m div d" using assms by simp
qed

lemma num_blocks_lt:
  "0 < d \<Longrightarrow> 0 \<le> n \<Longrightarrow> (k < c_div (n + d - 1) d) = (k * d < n)"
  by (auto simp add: c_div_nonneg less_div_iff_int algebra_simps)

lemma set_strided_loop:
  "0 < g \<Longrightarrow> set (strided_loop i limit g) = {x. i \<le> x \<and> x < limit \<and> (x - i) mod int g = 0}"
proof (induction i limit g rule: strided_loop.induct)
  case (1 i limit stride)
  show ?case
  proof (cases "i < limit")
    case False
    then show ?thesis by (subst strided_loop.simps) auto
  next
    case True
    have step: "set (strided_loop (i + int stride) limit stride) =
        {x. i + int stride \<le> x \<and> x < limit \<and> (x - (i + int stride)) mod int stride = 0}"
      using 1 True by simp
    have same: "(x - (i + int stride)) mod int stride = (x - i) mod int stride" for x
      by (simp add: diff_diff_eq [symmetric])
    have far: "i + int stride \<le> x" if "i \<le> x" "x \<noteq> i" "(x - i) mod int stride = 0" for x
    proof -
      from that(3) have "int stride dvd x - i" by (simp add: dvd_eq_mod_eq_0)
      moreover have "0 < x - i" using that by simp
      ultimately have "int stride \<le> x - i" by (rule zdvd_imp_le)
      then show ?thesis by simp
    qed
    have "set (strided_loop i limit stride) = insert i (set (strided_loop (i + int stride) limit stride))"
      using True 1(2) by (subst strided_loop.simps) simp
    also have "\<dots> = {x. i \<le> x \<and> x < limit \<and> (x - i) mod int stride = 0}"
      unfolding step same using True 1(2) far by auto
    finally show ?thesis .
  qed
qed

lemma strided_loop_bounds: "x \<in> set (strided_loop i limit g) \<Longrightarrow> i \<le> x \<and> x < limit"
proof (cases "0 < g")
  case True
  assume "x \<in> set (strided_loop i limit g)"
  with True show ?thesis by (simp add: set_strided_loop)
next
  case False
  assume "x \<in> set (strided_loop i limit g)"
  with False show ?thesis by (subst (asm) strided_loop.simps) simp
qed


section \<open>The tiles of a launch\<close>







section \<open>Which tiles are active\<close>








section \<open>The extent of a tile\<close>

text \<open>
  C5. The kernel's comment says that \<open>block_S\<close> and \<open>block_T\<close> are the sizes of the block,
  up to \<open>(BLOCK_S_SIZE, BLOCK_T_SIZE)\<close>, truncated at the end of the sequence. The code
  bounds \<open>block_S\<close> by \<open>BLOCK_T_SIZE\<close> and \<open>block_T\<close> by \<open>BLOCK_S_SIZE\<close>: with tiles of
  \<open>4 \<times> 64\<close>, \<open>S = 8\<close>, \<open>T = 64\<close> and no boundary, the first tile is active with
  \<open>block_S = 8\<close> and \<open>block_T = 4\<close>, where the truncated extents are \<open>4\<close> and \<open>64\<close>.
\<close>

theorem C5_block_extent_swapped:
  "does_work (tile_setup 4 64 1 8 64 [] 0 0) \<and>
   block_S (tile_setup 4 64 1 8 64 [] 0 0) = 8 \<and>
   min 4 (s_end (tile_setup 4 64 1 8 64 [] 0 0) - s_block_begin (tile_setup 4 64 1 8 64 [] 0 0)) = 4 \<and>
   block_T (tile_setup 4 64 1 8 64 [] 0 0) = 4 \<and>
   min 64 (t_end (tile_setup 4 64 1 8 64 [] 0 0) - t_block_begin (tile_setup 4 64 1 8 64 [] 0 0)) = 64"
  by (simp add: tile_setup_def does_work_def c_div_def c_mod_def)

section \<open>The origin block\<close>

text \<open>
  C4. \<open>is_origin_block\<close> is computed as \<open>s_block_begin * t_block_begin == 0\<close>, which holds
  for every tile in the first row or the first column of tiles, not only for the tile
  at the origin. With tiles of \<open>4 \<times> 64\<close>, \<open>S = 4\<close>, \<open>T = 128\<close> and no boundary, the tile
  of iteration 1 with \<open>block = 0\<close> starts at \<open>(0, 64)\<close>; it is active, it is taken for
  the origin block, and its thread 65 stores the seed \<open>1.0\<close> in \<open>p_buf[0][1]\<close>.
\<close>

theorem C4_seed_off_origin:
  "tile_block (tile_setup 4 64 1 4 128 [] 1 0) = 0 \<and>
   s_block_begin (tile_setup 4 64 1 4 128 [] 1 0) = 0 \<and>
   t_block_begin (tile_setup 4 64 1 4 128 [] 1 0) = 64 \<and>
   does_work (tile_setup 4 64 1 4 128 [] 1 0) \<and>
   is_origin_block (tile_setup 4 64 1 4 128 [] 1 0) \<and>
   load_p_buf 4 64 p (tile_setup 4 64 1 4 128 [] 1 0) 65 = Some ((0, 1), Fin 1)"
  by (simp add: tile_setup_def does_work_def c_div_def c_mod_def load_p_buf_def to_unsigned_def)

section \<open>The output of the kernel\<close>

text \<open>
  C2. For \<open>B = 1\<close>, \<open>S = 2\<close>, \<open>T = 2\<close>, no boundary and \<open>px\<close>, \<open>py\<close> all zero, the launch of
  iteration 0 with one thread block handles the single tile at the origin and ends
  with \<open>p\<close> as it was before the launch, whatever it held: the kernel computes no
  lattice value, so \<open>p[1][1]\<close> is not set to \<open>ln 2\<close>.
\<close>

theorem C2_kernel_leaves_p:
  "map fst (tiles_done (mutual_information_kernel 4 64 1 0 (\<lambda>b s t. 0) (\<lambda>b s t. 0) p0 1 2 2 [] 0)) =
     [tile_setup 4 64 1 2 2 [] 0 0] \<and>
   p_out (mutual_information_kernel 4 64 1 0 (\<lambda>b s t. 0) (\<lambda>b s t. 0) p0 1 2 2 [] 0) = p0"
  by (simp add: mutual_information_kernel_def num_blocks_this_iter_def num_s_blocks_def
      c_div_def strided_loop.simps Let_def)

section \<open>The default boundary\<close>

lemma tile_setup_default_boundary:
  assumes "0 \<le> x"
  shows "tile_setup BS BT B S T (replicate (nat B) (0, 0, S, T)) iter x = tile_setup BS BT B S T [] iter x"
proof (cases "0 < B")
  case False
  then show ?thesis by simp
next
  case True
  then have "0 \<le> x mod B" "x mod B < B" by simp_all
  then have "nat (x mod B) < nat B" using True by simp
  then have "replicate (nat B) (0::int, 0::int, S, T) ! nat (c_mod x B) = (0, 0, S, T)"
    using True assms by (simp add: c_mod_nonneg)
  moreover have "replicate (nat B) (0::int, 0::int, S, T) \<noteq> []" using True by simp
  ultimately show ?thesis by (simp add: tile_setup_def Let_def)
qed

text \<open>
  C6. In every thread block of every launch, the kernel called with the empty boundary
  and the kernel called with the boundary whose row is \<open>(0, 0, S, T)\<close> for each of the
  \<open>B\<close> batch elements give the same result: the same tiles, the same \<open>continue\<close>s, the
  same contents of \<open>px_buf\<close>, \<open>py_buf\<close> and \<open>p_buf\<close>, and the same \<open>p\<close>.
\<close>

theorem C6_default_boundary:
  "mutual_information_kernel BS BT gridDim_x blockIdx_x px py p B S T [] iter =
   mutual_information_kernel BS BT gridDim_x blockIdx_x px py p B S T (replicate (nat B) (0, 0, S, T)) iter"
proof -
  have "tile_setup BS BT B S T (replicate (nat B) (0, 0, S, T)) iter x = tile_setup BS BT B S T [] iter x"
    if "x \<in> set (strided_loop (int blockIdx_x) (B * num_blocks_this_iter BS S iter) gridDim_x)" for x
  proof -
    from that have "int blockIdx_x \<le> x \<and> x < B * num_blocks_this_iter BS S iter"
      by (rule strided_loop_bounds)
    then show ?thesis by (intro tile_setup_default_boundary) simp
  qed
  then show ?thesis
    unfolding mutual_information_kernel_def by (simp cong: map_cong)
qed

section \<open>The loops of the entry points\<close>


lemma images_loop_backward_returns:
  assumes "0 < T" "0 < ipt"
  shows "\<exists>r. images_loop_backward TPB T N ipt = Some r \<and> ipt \<le> r \<and> (r = ipt \<or> r * T \<le> TPB)"
  using assms
proof (induction "nat (TPB + 1 - ipt * 2 * T)" arbitrary: ipt rule: less_induct)
  case less
  show ?case
  proof (cases "ipt * 2 * T \<le> TPB \<and> ipt * 2 * N \<le> TPB")
    case False
    then show ?thesis by (subst images_loop_backward.simps) auto
  next
    case True
    have pos: "0 < ipt * T" using less.prems by simp
    have "nat (TPB + 1 - (ipt * 2) * 2 * T) < nat (TPB + 1 - ipt * 2 * T)"
      using True pos by (simp add: algebra_simps)
    moreover have "0 < ipt * 2" using less.prems by simp
    ultimately obtain r where r: "images_loop_backward TPB T N (ipt * 2) = Some r" "ipt * 2 \<le> r"
        "r = ipt * 2 \<or> r * T \<le> TPB"
      using less.hyps [of "ipt * 2"] less.prems(1) by blast
    have "images_loop_backward TPB T N ipt = Some r"
      using True r(1) by (subst images_loop_backward.simps) simp
    moreover have "ipt \<le> r" using r(2) less.prems by simp
    moreover have "r * T \<le> TPB" using r(3) True by (auto simp: algebra_simps)
    ultimately show ?thesis by blast
  qed
qed

lemma grid_dim_y_loop_returns:
  assumes "0 < C" "0 < gdy"
  shows "\<exists>r. grid_dim_y_loop C gdy = Some r \<and> gdy \<le> r"
  using assms
proof (induction "nat (128 - C * gdy)" arbitrary: gdy rule: less_induct)
  case less
  show ?case
  proof (cases "C * gdy < 128")
    case False
    then show ?thesis by (subst grid_dim_y_loop.simps) simp
  next
    case True
    have pos: "0 < C * gdy" using less.prems by simp
    have "nat (128 - C * (gdy * 2)) < nat (128 - C * gdy)"
      using True pos by (simp add: algebra_simps)
    moreover have "0 < gdy * 2" using less.prems by simp
    ultimately obtain r where r: "grid_dim_y_loop C (gdy * 2) = Some r" "gdy * 2 \<le> r"
      using less.hyps [of "gdy * 2"] less.prems(1) by blast
    have "grid_dim_y_loop C gdy = Some r"
      using True r(1) by (subst grid_dim_y_loop.simps) simp
    moreover have "gdy \<le> r" using r(2) less.prems by simp
    ultimately show ?thesis by blast
  qed
qed

lemma code_error_check:
  assumes "0 < T" "0 < r" "r = 1 \<or> r * T \<le> TPB"
  shows "c_div TPB r \<ge> T \<or> r = 1"
proof (cases "r = 1")
  case False
  with assms have le: "r * T \<le> TPB" by simp
  have "0 < r * T" using assms by simp
  then have "0 \<le> TPB" using le by simp
  then have "c_div TPB r = TPB div r" using assms by (simp add: c_div_nonneg)
  moreover have "T - 1 < TPB div r"
    using less_div_iff_int [OF assms(2), of "T - 1" TPB] le by (simp add: algebra_simps)
  ultimately show ?thesis by simp
qed simp

section \<open>The forward entry point\<close>










section \<open>The backward entry point\<close>

lemma add_rows_shape:
  assumes "length x = C" "\<forall>row\<in>set x. length row = N1"
      and "length acc = C" "\<forall>row\<in>set acc. length row = N1"
  shows "length (add_rows x acc) = C"
    and "c < C \<Longrightarrow> length (add_rows x acc ! c) = N1"
    and "c < C \<Longrightarrow> n < N1 \<Longrightarrow> add_rows x acc ! c ! n = x ! c ! n + acc ! c ! n"
  using assms by (simp_all add: add_rows_def)

lemma at_sum_dim0_sum:
  assumes "\<forall>m\<in>set t. length m = C \<and> (\<forall>row\<in>set m. length row = N1)"
  shows "length (at_sum_dim0 C N1 t) = C \<and>
         (\<forall>c<C. length (at_sum_dim0 C N1 t ! c) = N1 \<and>
            (\<forall>n<N1. at_sum_dim0 C N1 t ! c ! n = (\<Sum>m\<leftarrow>t. m ! c ! n)))"
  using assms
proof (induction t)
  case Nil
  then show ?case by (simp add: at_sum_dim0_def)
next
  case (Cons x t)
  let ?acc = "at_sum_dim0 C N1 t"
  have ih: "length ?acc = C" "\<And>c. c < C \<Longrightarrow> length (?acc ! c) = N1"
    "\<And>c n. c < C \<Longrightarrow> n < N1 \<Longrightarrow> ?acc ! c ! n = (\<Sum>m\<leftarrow>t. m ! c ! n)"
    using Cons by simp_all
  have x: "length x = C" "\<forall>row\<in>set x. length row = N1" using Cons.prems by simp_all
  have acc: "\<forall>row\<in>set ?acc. length row = N1"
    using ih(1,2) by (auto simp: in_set_conv_nth)
  have step: "at_sum_dim0 C N1 (x # t) = add_rows x ?acc" by (simp add: at_sum_dim0_def)
  show ?case
    unfolding step
    using add_rows_shape [OF x ih(1) acc] ih(3) by simp
qed

lemma kernel_params_grad_shape:
  "length (kernel_params_grad kern TPB (zeros3 a b c)) = a \<and>
   (\<forall>m\<in>set (kernel_params_grad kern TPB (zeros3 a b c)).
      length m = b \<and> (\<forall>row\<in>set m. length row = c))"
  by (auto simp add: kernel_params_grad_def zeros3_def)

lemma kernel_params_grad_value:
  "y < a \<Longrightarrow> ch < b \<Longrightarrow> n < c \<Longrightarrow>
   kernel_params_grad kern TPB (zeros3 a b c) ! y ! ch ! n = (if int n < TPB then kern y ch n else 0)"
  by (simp add: kernel_params_grad_def zeros3_def)

lemma sum_list_nth: "(\<Sum>m\<leftarrow>t. f m) = (\<Sum>y<length t. f (t ! y))"
proof -
  have "(\<Sum>m\<leftarrow>t. f m) = (\<Sum>y<length t. map f t ! y)"
    by (simp add: sum_list_sum_nth atLeast0LessThan)
  also have "\<dots> = (\<Sum>y<length t. f (t ! y))"
    by (rule sum.cong) simp_all
  finally show ?thesis .
qed

lemma backward_launches:
  assumes "tensor_dim input = 3" "tensor_dim params = 2"
    and "tensor_size params 1 \<ge> 3 \<and> (tensor_size params 1 - 1) AND (tensor_size params 1 - 2) = 0"
    and "tensor_size params 0 = tensor_size input 1"
    and "tensor_dim output_grad = 3 \<and> tensor_size output_grad 0 = tensor_size input 0 \<and>
         tensor_size output_grad 1 = tensor_size input 1 \<and>
         tensor_size output_grad 2 = tensor_size input 2"
    and "is_cuda (device input)" "is_cuda (device output_grad)" "is_cuda (device params)"
    and "4 \<le> tensor_size params 1 - 1" "tensor_size params 1 - 1 \<le> 16"
    and "(tensor_size params 1 - 1) AND (tensor_size params 1 - 1 - 1) = 0"
    and "tensor_size input 1 * tensor_size input 0 * tensor_size input 2 \<noteq> 0"
  shows "\<exists>ipt gdy. 1 \<le> gdy \<and>
     mutual_information_backward_cuda TPB kern input params output_grad =
     (if c_div TPB ipt \<ge> tensor_size params 1 - 1
      then Some (Inr \<lparr> input_grad_sizes = [tensor_size input 0, tensor_size input 1, tensor_size input 2],
             params_grad = Values (at_sum_dim0 (nat (tensor_size input 1)) (nat (tensor_size params 1 - 1 + 1))
                (kernel_params_grad kern TPB
                   (zeros3 (nat gdy) (nat (tensor_size input 1)) (nat (tensor_size params 1 - 1 + 1))))),
             kernel_params_grad_out = Some (kernel_params_grad kern TPB
                   (zeros3 (nat gdy) (nat (tensor_size input 1)) (nat (tensor_size params 1 - 1 + 1)))),
             backward_launch = Some \<lparr> grid_dim_x = tensor_size input 1, grid_dim_y = gdy,
               threads = TPB, shared_mem_numel = 2 * (tensor_size params 1 - 1) + 3,
               images_per_thread_block = ipt \<rparr> \<rparr>)
      else Some (Inl ''Expected THREADS_PER_BLOCK / images_per_thread_block >= N to be true, but got false.''))"
proof -
  let ?B = "tensor_size input 0" and ?C = "tensor_size input 1" and ?T = "tensor_size input 2"
  let ?N = "tensor_size params 1 - 1"
  have nn: "0 \<le> ?B" "0 \<le> ?C" "0 \<le> ?T" by (simp_all add: tensor_size_def)
  have T: "0 < ?T" and C: "0 < ?C" and B: "0 < ?B" using assms(12) nn by auto
  obtain ipt where ipt: "images_loop_backward TPB ?T ?N 1 = Some ipt" "1 \<le> ipt"
      "ipt = 1 \<or> ipt * ?T \<le> TPB"
    using images_loop_backward_returns [OF T, of 1 TPB ?N] by auto
  obtain gdy where gdy: "grid_dim_y_loop ?C 1 = Some gdy" "1 \<le> gdy"
    using grid_dim_y_loop_returns [OF C, of 1] by auto
  have ce: "c_div TPB ipt \<ge> ?T \<or> ipt = 1"
    using code_error_check [OF T _ ipt(3)] ipt(2) by simp
  let ?Br = "c_div (?B + ipt - 1) ipt"
  have "0 < ?Br"
    using num_blocks_lt [of ipt ?B 0] ipt(2) B by simp
  then have g1: "1 \<le> (if gdy > ?Br then ?Br else gdy)" using gdy(2) by simp
  have "mutual_information_backward_cuda TPB kern input params output_grad =
     (if c_div TPB ipt \<ge> ?N
      then Some (Inr \<lparr> input_grad_sizes = [?B, ?C, ?T],
             params_grad = Values (at_sum_dim0 (nat ?C) (nat (?N + 1))
                (kernel_params_grad kern TPB
                   (zeros3 (nat (if gdy > ?Br then ?Br else gdy)) (nat ?C) (nat (?N + 1))))),
             kernel_params_grad_out = Some (kernel_params_grad kern TPB
                   (zeros3 (nat (if gdy > ?Br then ?Br else gdy)) (nat ?C) (nat (?N + 1)))),
             backward_launch = Some \<lparr> grid_dim_x = ?C, grid_dim_y = (if gdy > ?Br then ?Br else gdy),
               threads = TPB, shared_mem_numel = 2 * ?N + 3,
               images_per_thread_block = ipt \<rparr> \<rparr>)
      else Some (Inl ''Expected THREADS_PER_BLOCK / images_per_thread_block >= N to be true, but got false.''))"
    using assms ce
    by (auto simp add: mutual_information_backward_cuda_def ipt(1) gdy(1) Let_def simp del: One_nat_def)
  with g1 show ?thesis by blast
qed

lemma backward_cases:
  fixes TPB kern input params output_grad
  defines "ok \<equiv> tensor_dim input = 3 \<and> tensor_dim params = 2 \<and>
      (tensor_size params 1 \<ge> 3 \<and> (tensor_size params 1 - 1) AND (tensor_size params 1 - 2) = 0) \<and>
      tensor_size params 0 = tensor_size input 1 \<and>
      (tensor_dim output_grad = 3 \<and> tensor_size output_grad 0 = tensor_size input 0 \<and>
         tensor_size output_grad 1 = tensor_size input 1 \<and>
         tensor_size output_grad 2 = tensor_size input 2) \<and>
      is_cuda (device input) \<and> is_cuda (device output_grad) \<and> is_cuda (device params) \<and>
      4 \<le> tensor_size params 1 - 1 \<and> tensor_size params 1 - 1 \<le> 16 \<and>
      (tensor_size params 1 - 1) AND (tensor_size params 1 - 1 - 1) = 0"
  shows "(\<exists>msg. mutual_information_backward_cuda TPB kern input params output_grad = Some (Inl msg) \<and>
            msg \<noteq> []) \<or>
         (\<exists>r. mutual_information_backward_cuda TPB kern input params output_grad = Some (Inr r) \<and> ok \<and>
            input_grad_sizes r = [tensor_size input 0, tensor_size input 1, tensor_size input 2] \<and>
            (if tensor_size input 1 * tensor_size input 0 * tensor_size input 2 = 0
             then params_grad r = Empty_Tensor [tensor_size input 1, tensor_size params 1 - 1 + 1] \<and>
                  kernel_params_grad_out r = None \<and> backward_launch r = None
             else (\<exists>ipt gdy. 1 \<le> gdy \<and>
                  params_grad r = Values (at_sum_dim0 (nat (tensor_size input 1)) (nat (tensor_size params 1 - 1 + 1))
                    (kernel_params_grad kern TPB
                      (zeros3 (nat gdy) (nat (tensor_size input 1)) (nat (tensor_size params 1 - 1 + 1))))) \<and>
                  kernel_params_grad_out r = Some (kernel_params_grad kern TPB
                      (zeros3 (nat gdy) (nat (tensor_size input 1)) (nat (tensor_size params 1 - 1 + 1)))) \<and>
                  backward_launch r = Some \<lparr> grid_dim_x = tensor_size input 1, grid_dim_y = gdy,
                     threads = TPB, shared_mem_numel = 2 * (tensor_size params 1 - 1) + 3,
                     images_per_thread_block = ipt \<rparr>)))"
proof -
  let ?numel = "tensor_size input 1 * tensor_size input 0 * tensor_size input 2"
  let ?f = "mutual_information_backward_cuda TPB kern input params output_grad"
  consider (bad) "\<not> ok" | (empty) "ok" "?numel = 0" | (run) "ok" "?numel \<noteq> 0" by blast
  then show ?thesis
  proof cases
    case bad
    then have "\<exists>msg. ?f = Some (Inl msg) \<and> msg \<noteq> []"
      unfolding mutual_information_backward_cuda_def ok_def
      by (auto simp add: Let_def simp del: One_nat_def)
    then show ?thesis by blast
  next
    case empty
    then have "?f = Some (Inr \<lparr> input_grad_sizes = [tensor_size input 0, tensor_size input 1, tensor_size input 2],
           params_grad = Empty_Tensor [tensor_size input 1, tensor_size params 1 - 1 + 1],
           kernel_params_grad_out = None, backward_launch = None \<rparr>)"
      unfolding mutual_information_backward_cuda_def ok_def
      by (simp add: Let_def del: One_nat_def)
    then show ?thesis using empty by simp
  next
    case run
    then obtain ipt gdy where g: "1 \<le> gdy" and f: "?f =
     (if c_div TPB ipt \<ge> tensor_size params 1 - 1
      then Some (Inr \<lparr> input_grad_sizes = [tensor_size input 0, tensor_size input 1, tensor_size input 2],
             params_grad = Values (at_sum_dim0 (nat (tensor_size input 1)) (nat (tensor_size params 1 - 1 + 1))
                (kernel_params_grad kern TPB
                   (zeros3 (nat gdy) (nat (tensor_size input 1)) (nat (tensor_size params 1 - 1 + 1))))),
             kernel_params_grad_out = Some (kernel_params_grad kern TPB
                   (zeros3 (nat gdy) (nat (tensor_size input 1)) (nat (tensor_size params 1 - 1 + 1)))),
             backward_launch = Some \<lparr> grid_dim_x = tensor_size input 1, grid_dim_y = gdy,
               threads = TPB, shared_mem_numel = 2 * (tensor_size params 1 - 1) + 3,
               images_per_thread_block = ipt \<rparr> \<rparr>)
      else Some (Inl ''Expected THREADS_PER_BLOCK / images_per_thread_block >= N to be true, but got false.''))"
      using backward_launches [of input params output_grad TPB kern] unfolding ok_def by blast
    show ?thesis
    proof (cases "c_div TPB ipt \<ge> tensor_size params 1 - 1")
      case True
      then show ?thesis using f g run by auto
    next
      case False
      then show ?thesis using f by simp
    qed
  qed
qed

lemma sizes_eq_3:
  assumes "length xs = 3" "length ys = 3" "xs ! 0 = ys ! 0" "xs ! 1 = ys ! 1" "xs ! 2 = ys ! 2"
  shows "xs = (ys :: nat list)"
  using assms by (auto simp add: list_eq_iff_nth_eq less_Suc_eq numeral_3_eq_3 numeral_2_eq_2)

lemma pow2_of_and:
  fixes N :: int
  assumes "4 \<le> N" "N \<le> 16" "N AND (N - 1) = 0"
  shows "\<exists>k::nat. N = 2 ^ k"
proof -
  have "N = 4 \<or> N = 5 \<or> N = 6 \<or> N = 7 \<or> N = 8 \<or> N = 9 \<or> N = 10 \<or> N = 11 \<or> N = 12 \<or>
        N = 13 \<or> N = 14 \<or> N = 15 \<or> N = 16"
    using assms(1,2) by presburger
  then have "N = 4 \<or> N = 8 \<or> N = 16" using assms(3) by auto
  moreover have "(4::int) = 2 ^ 2" "(8::int) = 2 ^ 3" "(16::int) = 2 ^ 4" by simp_all
  ultimately show ?thesis by metis
qed

text \<open>
  C8. The backward entry point rejects the call, with a message, whenever the sizes of
  \<open>output_grad\<close> differ from the sizes of the input, or \<open>N = params.size(1) - 1\<close> is less
  than 4, greater than 16 or not a power of 2. A rejected call launches no kernel: the
  checks come before the launch, and a rejection is the message alone.
\<close>

theorem C8_backward_rejects:
  assumes "sizes output_grad \<noteq> sizes input \<or> tensor_size params 1 - 1 < 4 \<or>
           16 < tensor_size params 1 - 1 \<or> (\<nexists>k::nat. tensor_size params 1 - 1 = 2 ^ k)"
  shows "\<exists>msg. mutual_information_backward_cuda TPB kern input params output_grad = Some (Inl msg) \<and>
           msg \<noteq> []"
proof (rule ccontr)
  assume no: "\<not> ?thesis"
  then have
    ok: "tensor_dim input = 3"
      "tensor_dim output_grad = 3 \<and> tensor_size output_grad 0 = tensor_size input 0 \<and>
         tensor_size output_grad 1 = tensor_size input 1 \<and>
         tensor_size output_grad 2 = tensor_size input 2"
      "4 \<le> tensor_size params 1 - 1" "tensor_size params 1 - 1 \<le> 16"
      "(tensor_size params 1 - 1) AND (tensor_size params 1 - 1 - 1) = 0"
    using backward_cases [of TPB kern input params output_grad] by blast+
  have "sizes output_grad = sizes input"
    using ok(1,2) by (intro sizes_eq_3) (simp_all add: tensor_dim_def tensor_size_def)
  moreover have "\<exists>k::nat. tensor_size params 1 - 1 = 2 ^ k"
    using ok(3,4,5) by (rule pow2_of_and)
  ultimately show False using assms ok(3,4) by auto
qed

theorem C8_backward_rejects_witness:
  "tensor_size \<lparr>sizes = [2, 3], device = CUDA 0\<rparr> 1 - 1 < 4 \<and>
   (\<exists>msg. mutual_information_backward_cuda 256 (\<lambda>y c n. 0) \<lparr>sizes = [3, 2, 2], device = CUDA 0\<rparr>
       \<lparr>sizes = [2, 3], device = CUDA 0\<rparr> \<lparr>sizes = [3, 2, 2], device = CUDA 0\<rparr> = Some (Inl msg) \<and>
     msg \<noteq> [])"
  using C8_backward_rejects [where params = "\<lparr>sizes = [2, 3], device = CUDA 0\<rparr>"
      and input = "\<lparr>sizes = [3, 2, 2], device = CUDA 0\<rparr>"
      and output_grad = "\<lparr>sizes = [3, 2, 2], device = CUDA 0\<rparr>"
      and TPB = 256 and kern = "\<lambda>y c n. 0"]
  by (simp add: tensor_size_def)

text \<open>
  C9. When the backward entry point has launched its kernel with \<open>grid_dim_y\<close> groups
  per channel, the tensor that the kernel has filled has the sizes
  \<open>(grid_dim_y, C, N + 1)\<close>, and the parameter gradient that the entry point returns has
  the sizes \<open>(C, N + 1)\<close>, each entry being the sum of the kernel's entries over the
  leading dimension. The sum is taken by the entry point, after the kernel.
\<close>

theorem C9_params_grad_reduced:
  assumes "mutual_information_backward_cuda TPB kern input params output_grad = Some (Inr r)"
      and "backward_launch r = Some l"
  shows "\<exists>pg v. kernel_params_grad_out r = Some pg \<and> params_grad r = Values v \<and>
           1 \<le> grid_dim_y l \<and> length pg = nat (grid_dim_y l) \<and>
           (\<forall>m\<in>set pg. length m = nat (tensor_size params 0) \<and>
              (\<forall>row\<in>set m. length row = nat (tensor_size params 1 - 1 + 1))) \<and>
           length v = nat (tensor_size params 0) \<and>
           (\<forall>c<nat (tensor_size params 0).
              length (v ! c) = nat (tensor_size params 1 - 1 + 1) \<and>
              (\<forall>n<nat (tensor_size params 1 - 1 + 1). v ! c ! n = (\<Sum>y<length pg. pg ! y ! c ! n)))"
proof -
  let ?C = "nat (tensor_size input 1)" and ?N1 = "nat (tensor_size params 1 - 1 + 1)"
  have nz: "tensor_size input 1 * tensor_size input 0 * tensor_size input 2 \<noteq> 0"
    using backward_cases [of TPB kern input params output_grad] assms by auto
  then obtain ipt gdy where C: "tensor_size params 0 = tensor_size input 1" and g: "1 \<le> gdy"
    and v: "params_grad r = Values (at_sum_dim0 ?C ?N1 (kernel_params_grad kern TPB (zeros3 (nat gdy) ?C ?N1)))"
    and pg: "kernel_params_grad_out r = Some (kernel_params_grad kern TPB (zeros3 (nat gdy) ?C ?N1))"
    and l: "backward_launch r = Some \<lparr> grid_dim_x = tensor_size input 1, grid_dim_y = gdy,
                     threads = TPB, shared_mem_numel = 2 * (tensor_size params 1 - 1) + 3,
                     images_per_thread_block = ipt \<rparr>"
    using backward_cases [of TPB kern input params output_grad] assms(1) by auto
  let ?pg = "kernel_params_grad kern TPB (zeros3 (nat gdy) ?C ?N1)"
  have gl: "grid_dim_y l = gdy" using l assms(2) by auto
  have shape: "length ?pg = nat gdy" "\<forall>m\<in>set ?pg. length m = ?C \<and> (\<forall>row\<in>set m. length row = ?N1)"
    using kernel_params_grad_shape [of kern TPB "nat gdy" ?C ?N1] by simp_all
  have sum: "length (at_sum_dim0 ?C ?N1 ?pg) = ?C \<and>
         (\<forall>c<?C. length (at_sum_dim0 ?C ?N1 ?pg ! c) = ?N1 \<and>
            (\<forall>n<?N1. at_sum_dim0 ?C ?N1 ?pg ! c ! n = (\<Sum>y<length ?pg. ?pg ! y ! c ! n)))"
    using at_sum_dim0_sum [OF shape(2)] by (simp add: sum_list_nth)
  show ?thesis
    using v pg g gl shape sum unfolding C by blast
qed

theorem C9_params_grad_reduced_witness:
  "mutual_information_backward_cuda 256 (\<lambda>y c n. 1) \<lparr>sizes = [3, 2, 200], device = CUDA 0\<rparr>
      \<lparr>sizes = [2, 5], device = CUDA 0\<rparr> \<lparr>sizes = [3, 2, 200], device = CUDA 0\<rparr> =
     Some (Inr \<lparr>input_grad_sizes = [3, 2, 200],
        params_grad = Values [[3, 3, 3, 3, 3], [3, 3, 3, 3, 3]],
        kernel_params_grad_out = Some [[[1, 1, 1, 1, 1], [1, 1, 1, 1, 1]],
          [[1, 1, 1, 1, 1], [1, 1, 1, 1, 1]], [[1, 1, 1, 1, 1], [1, 1, 1, 1, 1]]],
        backward_launch = Some \<lparr>grid_dim_x = 2, grid_dim_y = 3, threads = 256,
          shared_mem_numel = 11, images_per_thread_block = 1\<rparr>\<rparr>) \<and>
   (\<exists>pg v. Some [[[1, 1, 1, 1, 1], [1, 1, 1, 1, 1]],
          [[1, 1, 1, 1, 1], [1, 1, 1, 1, 1]], [[1, 1, 1, 1, 1], [1, 1, 1, 1, 1]]] = Some pg \<and>
      Values [[3, 3, 3, 3, 3], [3, 3, 3, 3, 3]] = Values v \<and>
      length pg = 3 \<and> length v = 2 \<and>
      (\<forall>c<2. length (v ! c) = 5 \<and> (\<forall>n<5. v ! c ! n = (\<Sum>y<length pg. pg ! y ! c ! n))))"
proof -
  let ?r = "\<lparr>input_grad_sizes = [3, 2, 200],
        params_grad = Values [[3, 3, 3, 3, 3], [3, 3, 3, 3, 3]],
        kernel_params_grad_out = Some [[[1, 1, 1, 1, 1], [1, 1, 1, 1, 1]],
          [[1, 1, 1, 1, 1], [1, 1, 1, 1, 1]], [[1, 1, 1, 1, 1], [1, 1, 1, 1, 1]]],
        backward_launch = Some \<lparr>grid_dim_x = 2, grid_dim_y = 3, threads = 256,
          shared_mem_numel = 11, images_per_thread_block = 1\<rparr>\<rparr>"
  let ?l = "\<lparr>grid_dim_x = 2, grid_dim_y = 3, threads = 256,
          shared_mem_numel = 11, images_per_thread_block = 1::int\<rparr>"
  have e: "mutual_information_backward_cuda 256 (\<lambda>y c n. 1) \<lparr>sizes = [3, 2, 200], device = CUDA 0\<rparr>
      \<lparr>sizes = [2, 5], device = CUDA 0\<rparr> \<lparr>sizes = [3, 2, 200], device = CUDA 0\<rparr> = Some (Inr ?r)"
    by code_simp
  have l: "backward_launch ?r = Some ?l" by simp
  show ?thesis
    using C9_params_grad_reduced [OF e l] e by (simp add: tensor_size_def)
qed

section \<open>Inputs without elements\<close>



end
